theory Spec2Isabelle
  imports Main
begin

section \<open>JavaScript values\<close>

text \<open>
  The values a handler or a page can hold: what \<open>JSON.parse\<close> produces, plus
  \<open>undefined\<close>. A number is kept as its decimal rendering (the string that
  \<open>String(n)\<close> gives; both zeros render as \<open>0\<close>): the program only ever tests a
  number for truthiness or pastes it into a template literal. An object is the list of its
  own properties, each key once, looked up with \<open>map_of\<close>.
\<close>

datatype jsval =
    JUndefined
  | JNull
  | JBool bool
  | JNum string
  | JStr string
  | JArr "jsval list"
  | JObj "(string \<times> jsval) list"

datatype js_error = TypeError | SyntaxError | NetworkError

text \<open>ToBoolean: \<open>undefined\<close>, \<open>null\<close>, \<open>false\<close>, \<open>0\<close>, \<open>NaN\<close> and the empty
  string are falsy, everything else (every array, every object) is truthy.\<close>

fun truthy :: "jsval \<Rightarrow> bool" where
  "truthy JUndefined = False"
| "truthy JNull = False"
| "truthy (JBool b) = b"
| "truthy (JNum n) = (n \<noteq> ''0'' \<and> n \<noteq> ''NaN'')"
| "truthy (JStr s) = (s \<noteq> [])"
| "truthy (JArr xs) = True"
| "truthy (JObj kvs) = True"

text \<open>\<open>a && b\<close> and \<open>a || b\<close> return one of their operands.\<close>

definition js_and :: "jsval \<Rightarrow> jsval \<Rightarrow> jsval" where
  "js_and a b = (if truthy a then b else a)"

definition js_or :: "jsval \<Rightarrow> jsval \<Rightarrow> jsval" where
  "js_or a b = (if truthy a then a else b)"

text \<open>
  Reading a property, \<open>v.k\<close> (also what the destructuring \<open>const { k } = v\<close> does):
  a TypeError on \<open>undefined\<close> and \<open>null\<close>; on an object the own property, or
  \<open>undefined\<close> when there is none. The names this program reads (\<open>username\<close>,
  \<open>password\<close>, \<open>prompt\<close>, \<open>file\<close>, \<open>originalFilename\<close>, \<open>text\<close>) are no
  built-in property of a boolean, number, string, array or plain object, so on every other
  value the lookup ends in \<open>undefined\<close>.
\<close>

fun get_prop :: "jsval \<Rightarrow> string \<Rightarrow> js_error + jsval" where
  "get_prop JUndefined k = Inl TypeError"
| "get_prop JNull k = Inl TypeError"
| "get_prop (JObj kvs) k = Inr (case map_of kvs k of Some v \<Rightarrow> v | None \<Rightarrow> JUndefined)"
| "get_prop v k = Inr JUndefined"

text \<open>Optional chaining, \<open>v?.k\<close>: \<open>undefined\<close> when \<open>v\<close> is \<open>undefined\<close> or
  \<open>null\<close>, the property read otherwise.\<close>

definition opt_chain :: "jsval \<Rightarrow> string \<Rightarrow> js_error + jsval" where
  "opt_chain v k = (if v = JUndefined \<or> v = JNull then Inr JUndefined else get_prop v k)"

text \<open>
  ToString, as a template literal applies it. An array joins its elements with a comma,
  \<open>undefined\<close> and \<open>null\<close> elements giving the empty string. An object is converted
  through its \<open>toString\<close> and \<open>valueOf\<close> methods: a plain object inherits a
  \<open>toString\<close> that gives \<open>[object Object]\<close>; when the object has an own property
  \<open>toString\<close> (from JSON, never a function) that one shadows the inherited method, no
  method is left that returns a primitive, and the conversion throws a TypeError. The
  elements of an array are converted from left to right, and the first exception ends the
  conversion.
\<close>

fun to_string :: "jsval \<Rightarrow> js_error + string"
  and join :: "jsval list \<Rightarrow> js_error + string" where
  "to_string JUndefined = Inr ''undefined''"
| "to_string JNull = Inr ''null''"
| "to_string (JBool b) = Inr (if b then ''true'' else ''false'')"
| "to_string (JNum n) = Inr n"
| "to_string (JStr s) = Inr s"
| "to_string (JArr xs) = join xs"
| "to_string (JObj kvs) =
     (if map_of kvs ''toString'' = None then Inr ''[object Object]'' else Inl TypeError)"
| "join [] = Inr []"
| "join (x # xs) =
     (case (if x = JUndefined \<or> x = JNull then Inr [] else to_string x) of
        Inl e \<Rightarrow> Inl e
      | Inr s \<Rightarrow>
         if xs = [] then Inr s
         else (case join xs of Inl e \<Rightarrow> Inl e | Inr r \<Rightarrow> Inr (s @ '','' @ r)))"

section \<open>The response object and the request\<close>

text \<open>
  The part of Node's \<open>res\<close> the handlers touch: \<open>res.status(n)\<close> sets the status
  code, \<open>res.end()\<close> finishes the response without a body, \<open>res.json(v)\<close> finishes it
  with \<open>v\<close> as its body. \<open>payload = None\<close> is a response with no body.
\<close>

record response =
  statusCode :: nat
  payload :: "jsval option"
  finished :: bool

definition res_status :: "nat \<Rightarrow> response \<Rightarrow> response" where
  "res_status n res = res\<lparr>statusCode := n\<rparr>"

definition res_end :: "response \<Rightarrow> response" where
  "res_end res = res\<lparr>finished := True\<rparr>"

definition res_json :: "jsval \<Rightarrow> response \<Rightarrow> response" where
  "res_json v res = res\<lparr>payload := Some v, finished := True\<rparr>"

text \<open>The response object as the server hands it to a handler.\<close>

definition fresh :: response where
  "fresh = \<lparr>statusCode = 200, payload = None, finished = False\<rparr>"

record request =
  "method" :: string
  body :: jsval

section \<open>The API route handlers\<close>

text \<open>
  Each handler takes the request and the response object and returns the response object
  as it leaves it, or the exception it throws (\<open>Inl\<close>).
\<close>

text \<open>\<open>pages/api/auth/login.js\<close>\<close>

definition login_handler :: "request \<Rightarrow> response \<Rightarrow> js_error + response" where
  "login_handler req res =
     (if method req \<noteq> ''POST'' then Inr (res_end (res_status 405 res))
      else case get_prop (body req) ''username'' of
          Inl e \<Rightarrow> Inl e
        | Inr u \<Rightarrow>
           (case get_prop (body req) ''password'' of
              Inl e \<Rightarrow> Inl e
            | Inr p \<Rightarrow>
               if truthy (js_and u p)
               then Inr (res_json (JObj [(''ok'', JBool True)]) (res_status 200 res))
               else Inr (res_json (JObj [(''ok'', JBool False)]) (res_status 400 res))))"

text \<open>The signup route (\<open>src/unnamed/part_002\<close>): the test is \<open>body && body.username && body.password\<close>,
  so a property is read only when everything to its left is truthy.\<close>

definition signup_handler :: "request \<Rightarrow> response \<Rightarrow> js_error + response" where
  "signup_handler req res =
     (if method req \<noteq> ''POST'' then Inr (res_end (res_status 405 res))
      else let b = body req;
               accept = Inr (res_json (JObj [(''ok'', JBool True)]) (res_status 200 res));
               reject = Inr (res_json (JObj [(''ok'', JBool False)]) (res_status 400 res))
           in if \<not> truthy b then reject
              else case get_prop b ''username'' of
                  Inl e \<Rightarrow> Inl e
                | Inr u \<Rightarrow>
                   if \<not> truthy u then reject
                   else (case get_prop b ''password'' of
                       Inl e \<Rightarrow> Inl e
                     | Inr p \<Rightarrow> if truthy p then accept else reject))"

text \<open>
  \<open>pages/api/upload.js\<close>. The multipart parser is the library \<open>formidable\<close>:
  \<open>form.parse(req, callback)\<close> reads the request and calls the callback with
  \<open>(err, fields, files)\<close>. That triple is the argument \<open>parsed\<close> of the handler
  here, and \<open>upload_callback\<close> is the callback (its \<open>fields\<close> is written
  \<open>form_fields\<close>: the record package owns the name \<open>fields\<close>).
\<close>

definition upload_callback :: "response \<Rightarrow> jsval \<Rightarrow> jsval \<Rightarrow> jsval \<Rightarrow> js_error + response" where
  "upload_callback res err form_fields files =
     (if truthy err then Inr (res_end (res_status 500 res))
      else case get_prop files ''file'' of
          Inl e \<Rightarrow> Inl e
        | Inr f \<Rightarrow>
           (case opt_chain f ''originalFilename'' of
              Inl e \<Rightarrow> Inl e
            | Inr n \<Rightarrow>
               Inr (res_json (JObj [(''ok'', JBool True), (''filename'', js_or n JNull)])
                      (res_status 200 res))))"

definition upload_handler ::
  "jsval \<times> jsval \<times> jsval \<Rightarrow> request \<Rightarrow> response \<Rightarrow> js_error + response" where
  "upload_handler parsed req res =
     (if method req \<noteq> ''POST'' then Inr (res_end (res_status 405 res))
      else case parsed of
        (err, form_fields, files) \<Rightarrow> upload_callback res err form_fields files)"

text \<open>The route \<open>/api/llm\<close> (the second handler of \<open>pages/api/upload.js\<close>): the
  answer is a template literal around the prompt. \<open>llm_text s\<close> is the literal with
  \<open>s\<close>, the prompt converted to a string, pasted in; the conversion can throw.\<close>

definition llm_text :: "string \<Rightarrow> string" where
  "llm_text s =
     ''Simulated LLM answer for prompt: '' @ [CHR 0x22] @ s
       @ [CHR 0x22, CHR 0x0A, CHR 0x0A]
       @ ''(Replace /api/llm with your real LLM integration.)''"

definition llm_handler :: "request \<Rightarrow> response \<Rightarrow> js_error + response" where
  "llm_handler req res =
     (if method req \<noteq> ''POST'' then Inr (res_end (res_status 405 res))
      else case get_prop (body req) ''prompt'' of
          Inl e \<Rightarrow> Inl e
        | Inr prompt \<Rightarrow>
           (case to_string prompt of
              Inl e \<Rightarrow> Inl e
            | Inr s \<Rightarrow>
               Inr (res_json (JObj [(''text'', JStr (llm_text s))]) (res_status 200 res))))"

section \<open>The pages\<close>

text \<open>
  What a page sees of \<open>fetch\<close>: the promise rejects (no HTTP response at all), or it
  resolves to a response with a status and a body. \<open>json_body\<close> is the body as
  \<open>res.json()\<close> parses it, \<open>None\<close> when the body is not JSON and \<open>res.json()\<close>
  rejects with a SyntaxError. \<open>res.ok\<close> is true exactly for the statuses 200 to 299.
\<close>

record http_response =
  http_status :: nat
  json_body :: "jsval option"

definition ok :: "http_response \<Rightarrow> bool" where
  "ok r = (200 \<le> http_status r \<and> http_status r \<le> 299)"

definition response_json :: "http_response \<Rightarrow> js_error + jsval" where
  "response_json r = (case json_body r of None \<Rightarrow> Inl SyntaxError | Some v \<Rightarrow> Inr v)"

datatype fetch_result = Rejected | Resolved http_response

text \<open>A call of \<open>fetch\<close>: the URL, the method, and the body, which is either the value
  given to \<open>JSON.stringify\<close> or a \<open>FormData\<close> of named files (a file is known by its
  name).\<close>

datatype content = JsonBody jsval | FormData "(string \<times> string) list"

record fetch_call =
  url :: string
  fetch_method :: string
  content :: content

text \<open>What a submit handler does that can be seen from outside, in order.\<close>

datatype effect =
    Fetched fetch_call
  | Alert string
  | Push string

fun is_Fetched :: "effect \<Rightarrow> bool" where
  "is_Fetched (Fetched c) = True"
| "is_Fetched e = False"

fun is_Alert :: "effect \<Rightarrow> bool" where
  "is_Alert (Alert m) = True"
| "is_Alert e = False"

fun is_Push :: "effect \<Rightarrow> bool" where
  "is_Push (Push p) = True"
| "is_Push e = False"

subsection \<open>Dashboard\<close>

record exchange =
  input :: string
  "output" :: jsval

record dashboard =
  query :: string
  results :: "exchange list"

definition setQuery :: "string \<Rightarrow> dashboard \<Rightarrow> dashboard" where
  "setQuery v st = st\<lparr>query := v\<rparr>"

definition llm_call :: "string \<Rightarrow> fetch_call" where
  "llm_call q = \<lparr>url = ''/api/llm'', fetch_method = ''POST'',
                 content = JsonBody (JObj [(''prompt'', JStr q)])\<rparr>"

text \<open>
  \<open>askLLM\<close> after its \<open>await fetch\<close>: \<open>q\<close> is the query text the closure captured at
  submit, \<open>fr\<close> what the fetch came to, \<open>st\<close> the page state the two state updates
  apply to. An exception leaves the state as it was.
\<close>

definition askLLM_settle :: "string \<Rightarrow> fetch_result \<Rightarrow> dashboard \<Rightarrow> js_error + dashboard" where
  "askLLM_settle q fr st =
     (case fr of
        Rejected \<Rightarrow> Inl NetworkError
      | Resolved res \<Rightarrow>
         (case response_json res of
            Inl e \<Rightarrow> Inl e
          | Inr data \<Rightarrow>
             (case get_prop data ''text'' of
                Inl e \<Rightarrow> Inl e
              | Inr t \<Rightarrow>
                 Inr (st\<lparr>results := \<lparr>input = q, output = t\<rparr> # results st, query := []\<rparr>))))"

text \<open>A submit whose response arrives before anything else happens on the page.\<close>

definition askLLM :: "(fetch_call \<Rightarrow> fetch_result) \<Rightarrow> dashboard \<Rightarrow> js_error + dashboard" where
  "askLLM fetch st = askLLM_settle (query st) (fetch (llm_call (query st))) st"

subsection \<open>Home\<close>

record form =
  name :: string
  age :: string
  username :: string
  password :: string
  disease :: string
  email :: string
  phone :: string
  foodHabits :: string
  gender :: string

record home =
  isSignup :: bool
  form :: form

definition login_call :: "form \<Rightarrow> fetch_call" where
  "login_call f = \<lparr>url = ''/api/auth/login'', fetch_method = ''POST'',
     content = JsonBody (JObj [(''username'', JStr (username f)), (''password'', JStr (password f))])\<rparr>"

definition signup_call :: "form \<Rightarrow> fetch_call" where
  "signup_call f = \<lparr>url = ''/api/auth/signup'', fetch_method = ''POST'',
     content = JsonBody (JObj
       [(''name'', JStr (name f)), (''age'', JStr (age f)), (''username'', JStr (username f)),
        (''password'', JStr (password f)), (''disease'', JStr (disease f)),
        (''email'', JStr (email f)), (''phone'', JStr (phone f)),
        (''foodHabits'', JStr (foodHabits f)), (''gender'', JStr (gender f))])\<rparr>"

text \<open>A submit handler returns the effects it had, and the exception that ended it when
  there is one (a rejected \<open>fetch\<close> is not caught).\<close>

definition handleLogin :: "(fetch_call \<Rightarrow> fetch_result) \<Rightarrow> form \<Rightarrow> effect list \<times> js_error option" where
  "handleLogin fetch f =
     (case fetch (login_call f) of
        Rejected \<Rightarrow> ([Fetched (login_call f)], Some NetworkError)
      | Resolved res \<Rightarrow>
         if ok res then ([Fetched (login_call f), Push ''/dashboard''], None)
         else ([Fetched (login_call f), Alert ''Login failed''], None))"

definition handleSignup :: "(fetch_call \<Rightarrow> fetch_result) \<Rightarrow> form \<Rightarrow> effect list \<times> js_error option" where
  "handleSignup fetch f =
     (case fetch (signup_call f) of
        Rejected \<Rightarrow> ([Fetched (signup_call f)], Some NetworkError)
      | Resolved res \<Rightarrow>
         if ok res then ([Fetched (signup_call f), Push ''/dashboard''], None)
         else ([Fetched (signup_call f), Alert ''Sign up failed''], None))"

text \<open>The form's \<open>onSubmit\<close> is \<open>isSignup ? handleSignup : handleLogin\<close>.\<close>

definition onSubmit :: "(fetch_call \<Rightarrow> fetch_result) \<Rightarrow> home \<Rightarrow> effect list \<times> js_error option" where
  "onSubmit fetch st = (if isSignup st then handleSignup fetch (form st) else handleLogin fetch (form st))"

subsection \<open>Upload\<close>

text \<open>The page's \<open>file\<close> state is \<open>null\<close> (\<open>None\<close>) or the chosen file.\<close>

definition upload_call :: "string \<Rightarrow> fetch_call" where
  "upload_call file = \<lparr>url = ''/api/upload'', fetch_method = ''POST'',
                       content = FormData [(''file'', file)]\<rparr>"

definition submit :: "(fetch_call \<Rightarrow> fetch_result) \<Rightarrow> string option \<Rightarrow> effect list \<times> js_error option" where
  "submit fetch file =
     (case file of
        None \<Rightarrow> ([Alert ''Choose a PDF''], None)
      | Some fl \<Rightarrow>
         (case fetch (upload_call fl) of
            Rejected \<Rightarrow> ([Fetched (upload_call fl)], Some NetworkError)
          | Resolved res \<Rightarrow>
             if ok res then ([Fetched (upload_call fl), Alert ''Uploaded'', Push ''/dashboard''], None)
             else ([Fetched (upload_call fl), Alert ''Upload failed''], None)))"

section \<open>Basic facts\<close>

lemma res_ops:
  "res_end (res_status n res) = res\<lparr>statusCode := n, finished := True\<rparr>"
  "res_json v (res_status n res) = res\<lparr>statusCode := n, payload := Some v, finished := True\<rparr>"
  by (simp_all add: res_end_def res_status_def res_json_def)

text \<open>The next two lemmas take a request to lack a field when reading the field off its
  body throws or yields \<open>undefined\<close>.\<close>

lemma signup_rejects_missing:
  assumes "method req = ''POST''"
    and "get_prop (body req) ''username'' \<in> {Inl TypeError, Inr JUndefined}
         \<or> get_prop (body req) ''password'' \<in> {Inl TypeError, Inr JUndefined}"
  shows "signup_handler req res =
           Inr (res\<lparr>statusCode := 400, payload := Some (JObj [(''ok'', JBool False)]), finished := True\<rparr>)"
proof (cases "truthy (body req)")
  case False
  with assms(1) show ?thesis by (simp add: signup_handler_def Let_def res_ops)
next
  case True
  then have ne: "body req \<noteq> JUndefined" "body req \<noteq> JNull" by auto
  obtain u p where up: "get_prop (body req) ''username'' = Inr u" "get_prop (body req) ''password'' = Inr p"
    using ne by (cases "body req") simp_all
  with assms(2) have "u = JUndefined \<or> p = JUndefined" by auto
  with assms(1) True up show ?thesis
    by (auto simp add: signup_handler_def Let_def res_ops)
qed

lemma login_rejects_missing:
  assumes "method req = ''POST''"
    and "body req \<noteq> JUndefined" and "body req \<noteq> JNull"
    and "get_prop (body req) ''username'' = Inr JUndefined
         \<or> get_prop (body req) ''password'' = Inr JUndefined"
  shows "login_handler req res =
           Inr (res\<lparr>statusCode := 400, payload := Some (JObj [(''ok'', JBool False)]), finished := True\<rparr>)"
proof -
  obtain u p where up: "get_prop (body req) ''username'' = Inr u" "get_prop (body req) ''password'' = Inr p"
    using assms(2,3) by (cases "body req") simp_all
  with assms(4) have "u = JUndefined \<or> p = JUndefined" by auto
  with assms(1) up show ?thesis
    by (auto simp add: login_handler_def js_and_def res_ops)
qed

lemma login_throws_iff:
  "login_handler req res = Inl e \<longleftrightarrow>
     method req = ''POST'' \<and> (body req = JUndefined \<or> body req = JNull) \<and> e = TypeError"
  by (cases "body req") (auto simp add: login_handler_def split: sum.splits)

lemma signup_never_throws: "signup_handler req res \<noteq> Inl e"
  by (cases "body req") (auto simp add: signup_handler_def Let_def split: sum.splits)

section \<open>The auth stubs\<close>

text \<open>
  C1. A POST to the login or to the signup route whose body has non-empty strings as
  \<open>username\<close> and as \<open>password\<close> is answered with status 200 and the body
  \<open>{ok: true}\<close>.
\<close>

theorem auth_accepts_credentials:
  assumes "method req = ''POST''"
    and "body req = JObj kvs"
    and "map_of kvs ''username'' = Some (JStr u)" and "u \<noteq> []"
    and "map_of kvs ''password'' = Some (JStr p)" and "p \<noteq> []"
  shows "login_handler req res =
           Inr (res\<lparr>statusCode := 200, payload := Some (JObj [(''ok'', JBool True)]), finished := True\<rparr>)
       \<and> signup_handler req res =
           Inr (res\<lparr>statusCode := 200, payload := Some (JObj [(''ok'', JBool True)]), finished := True\<rparr>)"
  using assms by (simp add: login_handler_def signup_handler_def js_and_def Let_def res_ops)

theorem auth_accepts_credentials_witness:
  "login_handler \<lparr>method = ''POST'',
       body = JObj [(''username'', JStr ''asha''), (''password'', JStr ''s3cret'')]\<rparr> fresh =
     Inr \<lparr>statusCode = 200, payload = Some (JObj [(''ok'', JBool True)]), finished = True\<rparr>
   \<and> signup_handler \<lparr>method = ''POST'',
       body = JObj [(''username'', JStr ''asha''), (''password'', JStr ''s3cret'')]\<rparr> fresh =
     Inr \<lparr>statusCode = 200, payload = Some (JObj [(''ok'', JBool True)]), finished = True\<rparr>"
  using auth_accepts_credentials
    [of "\<lparr>method = ''POST'', body = JObj [(''username'', JStr ''asha''), (''password'', JStr ''s3cret'')]\<rparr>"
        "[(''username'', JStr ''asha''), (''password'', JStr ''s3cret'')]" "''asha''" "''s3cret''" fresh]
  by (simp add: fresh_def)

text \<open>
  C2. The claim: a POST to the login or to the signup route whose body lacks
  \<open>username\<close> or \<open>password\<close>, an absent body included, is answered with status 400
  and \<open>{ok: false}\<close>. The signup handler guards its reads with \<open>body &&\<close> and does so
  (\<open>signup_rejects_missing\<close>); the login handler destructures \<open>req.body\<close> unguarded, which
  throws a TypeError when the body is \<open>null\<close>, before any response is written.
\<close>

theorem login_null_body_throws:
  "login_handler \<lparr>method = ''POST'', body = JNull\<rparr> fresh = Inl TypeError
   \<and> signup_handler \<lparr>method = ''POST'', body = JNull\<rparr> fresh =
       Inr \<lparr>statusCode = 400, payload = Some (JObj [(''ok'', JBool False)]), finished = True\<rparr>"
  by (simp add: login_handler_def signup_handler_def Let_def res_ops fresh_def)

text \<open>
  C10. The signup handler reads nothing of the body but \<open>username\<close> and \<open>password\<close>:
  two POST requests whose bodies agree on these two fields get the same response, whatever
  their other fields are.
\<close>

theorem signup_depends_on_credentials_only:
  assumes "method r1 = ''POST''" and "method r2 = ''POST''"
    and "body r1 = JObj k1" and "body r2 = JObj k2"
    and "map_of k1 ''username'' = map_of k2 ''username''"
    and "map_of k1 ''password'' = map_of k2 ''password''"
  shows "signup_handler r1 res = signup_handler r2 res"
  using assms by (simp add: signup_handler_def Let_def)

theorem signup_depends_on_credentials_only_witness:
  "signup_handler \<lparr>method = ''POST'',
       body = JObj [(''name'', JStr ''Asha''), (''age'', JStr ''41''), (''username'', JStr ''asha''),
                    (''password'', JStr ''s3cret''), (''gender'', JStr ''Female'')]\<rparr> fresh
   = signup_handler \<lparr>method = ''POST'',
       body = JObj [(''password'', JStr ''s3cret''), (''email'', JStr ''a@b.c''),
                    (''username'', JStr ''asha''), (''phone'', JNum ''5'')]\<rparr> fresh"
  using signup_depends_on_credentials_only
    [of "\<lparr>method = ''POST'',
       body = JObj [(''name'', JStr ''Asha''), (''age'', JStr ''41''), (''username'', JStr ''asha''),
                    (''password'', JStr ''s3cret''), (''gender'', JStr ''Female'')]\<rparr>"
        "\<lparr>method = ''POST'',
       body = JObj [(''password'', JStr ''s3cret''), (''email'', JStr ''a@b.c''),
                    (''username'', JStr ''asha''), (''phone'', JNum ''5'')]\<rparr>"
        "[(''name'', JStr ''Asha''), (''age'', JStr ''41''), (''username'', JStr ''asha''),
                    (''password'', JStr ''s3cret''), (''gender'', JStr ''Female'')]"
        "[(''password'', JStr ''s3cret''), (''email'', JStr ''a@b.c''),
                    (''username'', JStr ''asha''), (''phone'', JNum ''5'')]"
        fresh]
  by simp

section \<open>Wrong method\<close>

text \<open>
  C3. On each of the four routes a request whose method is not POST gets status 405 and
  no body, and nothing else of the handler runs: the outcome is the response object with
  only the status set and the response ended, whatever the body is (no property of it is
  read) and whatever the multipart parser would have delivered (it is not run).
\<close>

theorem non_post_is_405:
  assumes "method req \<noteq> ''POST''"
  shows "login_handler req res = Inr (res\<lparr>statusCode := 405, finished := True\<rparr>)
       \<and> signup_handler req res = Inr (res\<lparr>statusCode := 405, finished := True\<rparr>)
       \<and> upload_handler parsed req res = Inr (res\<lparr>statusCode := 405, finished := True\<rparr>)
       \<and> llm_handler req res = Inr (res\<lparr>statusCode := 405, finished := True\<rparr>)"
  using assms
  by (simp add: login_handler_def signup_handler_def upload_handler_def llm_handler_def res_ops)

theorem non_post_is_405_witness:
  "login_handler \<lparr>method = ''GET'', body = JNull\<rparr> fresh =
     Inr \<lparr>statusCode = 405, payload = None, finished = True\<rparr>
   \<and> signup_handler \<lparr>method = ''GET'', body = JNull\<rparr> fresh =
     Inr \<lparr>statusCode = 405, payload = None, finished = True\<rparr>
   \<and> upload_handler (JNull, JObj [], JUndefined) \<lparr>method = ''GET'', body = JNull\<rparr> fresh =
     Inr \<lparr>statusCode = 405, payload = None, finished = True\<rparr>
   \<and> llm_handler \<lparr>method = ''GET'', body = JNull\<rparr> fresh =
     Inr \<lparr>statusCode = 405, payload = None, finished = True\<rparr>"
  using non_post_is_405 [of "\<lparr>method = ''GET'', body = JNull\<rparr>" fresh "(JNull, JObj [], JUndefined)"]
  by (simp add: fresh_def)

section \<open>The LLM stub\<close>

lemma llm_text_contains: "\<exists>pre post. llm_text p = pre @ p @ post"
proof -
  have "llm_text p =
          (''Simulated LLM answer for prompt: '' @ [CHR 0x22]) @ p
            @ ([CHR 0x22, CHR 0x0A, CHR 0x0A] @ ''(Replace /api/llm with your real LLM integration.)'')"
    by (simp add: llm_text_def)
  then show ?thesis by blast
qed

text \<open>
  What the handler does with a body that is an object with a string \<open>prompt\<close>: status
  200 and the body \<open>{text}\<close>, the text being the template with the prompt pasted in
  unchanged, so the prompt is a substring of it.
\<close>

lemma llm_answers_string_prompt:
  assumes "method req = ''POST''" and "body req = JObj kvs"
    and "map_of kvs ''prompt'' = Some (JStr p)"
  shows "llm_handler req res =
           Inr (res\<lparr>statusCode := 200, payload := Some (JObj [(''text'', JStr (llm_text p))]),
                   finished := True\<rparr>)"
    and "\<exists>pre post. llm_text p = pre @ p @ post"
  using assms llm_text_contains by (simp_all add: llm_handler_def res_ops)

text \<open>The handler writes no other status than 200 to a POST; when it writes nothing, it
  has thrown a TypeError.\<close>

lemma llm_post_outcomes:
  assumes "method req = ''POST''"
  shows "case llm_handler req res of Inl e \<Rightarrow> e = TypeError | Inr r \<Rightarrow> statusCode r = 200"
proof -
  have conv: "to_string v \<noteq> Inl SyntaxError \<and> to_string v \<noteq> Inl NetworkError"
    and "join vs \<noteq> Inl SyntaxError \<and> join vs \<noteq> Inl NetworkError" for v vs
    by (induction v and vs rule: to_string_join.induct) (auto split: sum.splits if_splits)
  have read: "get_prop b k \<noteq> Inl SyntaxError \<and> get_prop b k \<noteq> Inl NetworkError" for b k
    by (cases b) simp_all
  show ?thesis
  proof (cases "llm_handler req res")
    case (Inl e)
    have "e = TypeError"
    proof (cases e)
      case TypeError
      then show ?thesis .
    next
      case SyntaxError
      with Inl assms read conv show ?thesis
        by (auto simp add: llm_handler_def split: sum.splits)
    next
      case NetworkError
      with Inl assms read conv show ?thesis
        by (auto simp add: llm_handler_def split: sum.splits)
    qed
    with Inl show ?thesis by simp
  next
    case (Inr r)
    with assms show ?thesis
      by (auto simp add: llm_handler_def res_ops split: sum.splits)
  qed
qed

text \<open>An object with an own \<open>toString\<close> property as the prompt makes the template
  literal throw.\<close>

lemma llm_prompt_without_string_conversion:
  "llm_handler \<lparr>method = ''POST'', body = JObj [(''prompt'', JObj [(''toString'', JNum ''1'')])]\<rparr> fresh
     = Inl TypeError"
  by (simp add: llm_handler_def)


section \<open>The upload stub\<close>

text \<open>
  C9. A POST to \<open>/api/upload\<close> whose multipart body parses (the callback gets a falsy
  \<open>err\<close>) into files without a field \<open>file\<close> is still answered with status 200, the
  body being \<open>{ok: true, filename: null}\<close>.
\<close>

theorem upload_without_file_field:
  assumes "method req = ''POST''" and "\<not> truthy err" and "map_of fl ''file'' = None"
  shows "upload_handler (err, form_fields, JObj fl) req res =
           Inr (res\<lparr>statusCode := 200,
                    payload := Some (JObj [(''ok'', JBool True), (''filename'', JNull)]),
                    finished := True\<rparr>)"
  using assms
  by (simp add: upload_handler_def upload_callback_def opt_chain_def js_or_def res_ops)

theorem upload_without_file_field_witness:
  "upload_handler (JNull, JObj [(''note'', JStr ''hello'')], JObj [(''scan'', JObj [(''originalFilename'', JStr ''x.pdf'')])])
       \<lparr>method = ''POST'', body = JUndefined\<rparr> fresh =
     Inr \<lparr>statusCode = 200, payload = Some (JObj [(''ok'', JBool True), (''filename'', JNull)]),
          finished = True\<rparr>"
  using upload_without_file_field
    [of "\<lparr>method = ''POST'', body = JUndefined\<rparr>" JNull
        "[(''scan'', JObj [(''originalFilename'', JStr ''x.pdf'')])]" "JObj [(''note'', JStr ''hello'')]" fresh]
  by (simp add: fresh_def)

text \<open>
  C5. The claim: after a POST to \<open>/api/upload\<close>, a failed parse gives status 500 with no
  body, and a successful parse with a file field \<open>file\<close> whose original name is \<open>N\<close>
  gives status 200 with \<open>{ok: true, filename: N}\<close>. The handler computes the filename as
  \<open>files.file?.originalFilename || null\<close>, so an empty original name (a part sent with
  \<open>filename=""\<close>) is reported as \<open>null\<close>, not as the empty string.
\<close>

theorem upload_empty_name_counterexample:
  "upload_handler (JNull, JObj [], JObj [(''file'', JObj [(''originalFilename'', JStr '''')])])
       \<lparr>method = ''POST'', body = JUndefined\<rparr> fresh
   \<noteq> Inr \<lparr>statusCode = 200,
           payload = Some (JObj [(''ok'', JBool True), (''filename'', JStr '''')]),
           finished = True\<rparr>"
  by (simp add: upload_handler_def upload_callback_def opt_chain_def js_or_def res_ops fresh_def)

text \<open>
  C5, as the code has it: a failed parse (a truthy \<open>err\<close>) gives status 500 with no
  body; a successful parse with a file field \<open>file\<close> whose original name \<open>N\<close> is not
  empty gives status 200 with \<open>{ok: true, filename: N}\<close>.
\<close>

theorem upload_reports_filename:
  assumes "method req = ''POST''"
  shows "(truthy err \<longrightarrow>
            upload_handler (err, form_fields, files) req res =
              Inr (res\<lparr>statusCode := 500, finished := True\<rparr>))
       \<and> (\<not> truthy err \<and> files = JObj fl \<and> map_of fl ''file'' = Some (JObj props)
            \<and> map_of props ''originalFilename'' = Some (JStr n) \<and> n \<noteq> [] \<longrightarrow>
            upload_handler (err, form_fields, files) req res =
              Inr (res\<lparr>statusCode := 200,
                       payload := Some (JObj [(''ok'', JBool True), (''filename'', JStr n)]),
                       finished := True\<rparr>))"
  using assms
  by (simp add: upload_handler_def upload_callback_def opt_chain_def js_or_def res_ops)

theorem upload_reports_filename_witness:
  "upload_handler (JObj [(''message'', JStr ''bad content-type header'')], JUndefined, JUndefined)
       \<lparr>method = ''POST'', body = JUndefined\<rparr> fresh =
     Inr \<lparr>statusCode = 500, payload = None, finished = True\<rparr>
   \<and> upload_handler (JNull, JObj [], JObj [(''file'', JObj [(''originalFilename'', JStr ''report.pdf''), (''size'', JNum ''1024'')])])
       \<lparr>method = ''POST'', body = JUndefined\<rparr> fresh =
     Inr \<lparr>statusCode = 200,
          payload = Some (JObj [(''ok'', JBool True), (''filename'', JStr ''report.pdf'')]),
          finished = True\<rparr>"
  using upload_reports_filename
    [of "\<lparr>method = ''POST'', body = JUndefined\<rparr>" "JObj [(''message'', JStr ''bad content-type header'')]"
        JUndefined JUndefined fresh]
    upload_reports_filename
    [of "\<lparr>method = ''POST'', body = JUndefined\<rparr>" JNull "JObj []"
        "JObj [(''file'', JObj [(''originalFilename'', JStr ''report.pdf''), (''size'', JNum ''1024'')])]" fresh
        "[(''file'', JObj [(''originalFilename'', JStr ''report.pdf''), (''size'', JNum ''1024'')])]"
        "[(''originalFilename'', JStr ''report.pdf''), (''size'', JNum ''1024'')]" "''report.pdf''"]
  by (simp add: fresh_def)

section \<open>The dashboard\<close>

lemma askLLM_answered:
  assumes "fetch (llm_call (query st)) = Resolved r" and "json_body r = Some d"
    and "get_prop d ''text'' = Inr t"
  shows "askLLM fetch st =
           Inr (st\<lparr>results := \<lparr>input = query st, output = t\<rparr> # results st, query := []\<rparr>)"
  using assms by (simp add: askLLM_def askLLM_settle_def response_json_def)

text \<open>
  C6. The query list is newest first. From any list \<open>results st\<close> (the empty one at
  page load), submitting the prompt \<open>a\<close> and, once its answer is there, the prompt
  \<open>b\<close>, leaves the list \<open>[{input: b, ...}, {input: a, ...}]\<close> in front of what was
  there before: each exchange is put ahead of all earlier ones. The answers are whatever
  \<open>text\<close> the two JSON responses carry.
\<close>

theorem askLLM_newest_first:
  assumes "fetch (llm_call a) = Resolved ra" and "json_body ra = Some da"
    and "get_prop da ''text'' = Inr ta"
    and "fetch (llm_call b) = Resolved rb" and "json_body rb = Some db"
    and "get_prop db ''text'' = Inr tb"
  shows "askLLM fetch (setQuery a st) =
           Inr (st\<lparr>results := \<lparr>input = a, output = ta\<rparr> # results st, query := []\<rparr>)
       \<and> askLLM fetch (setQuery b (st\<lparr>results := \<lparr>input = a, output = ta\<rparr> # results st, query := []\<rparr>)) =
           Inr (st\<lparr>results := \<lparr>input = b, output = tb\<rparr> # \<lparr>input = a, output = ta\<rparr> # results st,
                   query := []\<rparr>)"
proof -
  have first: "askLLM fetch (setQuery a st) =
      Inr (st\<lparr>results := \<lparr>input = a, output = ta\<rparr> # results st, query := []\<rparr>)"
    using askLLM_answered [of fetch "setQuery a st" ra da ta] assms(1-3)
    by (simp add: setQuery_def)
  have second: "askLLM fetch (setQuery b (st\<lparr>results := \<lparr>input = a, output = ta\<rparr> # results st, query := []\<rparr>)) =
      Inr (st\<lparr>results := \<lparr>input = b, output = tb\<rparr> # \<lparr>input = a, output = ta\<rparr> # results st,
              query := []\<rparr>)"
    using askLLM_answered
      [of fetch "setQuery b (st\<lparr>results := \<lparr>input = a, output = ta\<rparr> # results st, query := []\<rparr>)" rb db tb]
      assms(4-6)
    by (simp add: setQuery_def)
  from first second show ?thesis by simp
qed

theorem askLLM_newest_first_witness:
  "askLLM (\<lambda>c. Resolved \<lparr>http_status = 200, json_body = Some (JObj [(''text'', JStr ''fine'')])\<rparr>)
       (setQuery ''A'' \<lparr>query = [], results = []\<rparr>) =
     Inr \<lparr>query = [], results = [\<lparr>input = ''A'', output = JStr ''fine''\<rparr>]\<rparr>
   \<and> askLLM (\<lambda>c. Resolved \<lparr>http_status = 200, json_body = Some (JObj [(''text'', JStr ''fine'')])\<rparr>)
       (setQuery ''B'' \<lparr>query = [], results = [\<lparr>input = ''A'', output = JStr ''fine''\<rparr>]\<rparr>) =
     Inr \<lparr>query = [],
          results = [\<lparr>input = ''B'', output = JStr ''fine''\<rparr>, \<lparr>input = ''A'', output = JStr ''fine''\<rparr>]\<rparr>"
  using askLLM_newest_first
    [of "\<lambda>c. Resolved \<lparr>http_status = 200, json_body = Some (JObj [(''text'', JStr ''fine'')])\<rparr>"
        "''A''" "\<lparr>http_status = 200, json_body = Some (JObj [(''text'', JStr ''fine'')])\<rparr>"
        "JObj [(''text'', JStr ''fine'')]" "JStr ''fine''"
        "''B''" "\<lparr>http_status = 200, json_body = Some (JObj [(''text'', JStr ''fine'')])\<rparr>"
        "JObj [(''text'', JStr ''fine'')]" "JStr ''fine''"
        "\<lparr>query = [], results = []\<rparr>"]
  by simp

text \<open>
  C7. The claim: an exchange is prepended only after a successful query; on a non-success
  HTTP response the list stays as it was. \<open>askLLM\<close> never looks at \<open>res.ok\<close> (the
  submit handlers of the Home and Upload pages do): a response with status 500 and a JSON
  body is parsed like any other, and an exchange with \<open>output: undefined\<close> is prepended.
\<close>

theorem askLLM_prepends_on_failure:
  "\<not> ok \<lparr>http_status = 500, json_body = Some (JObj [(''error'', JStr ''model unavailable'')])\<rparr>
   \<and> askLLM (\<lambda>c. Resolved \<lparr>http_status = 500,
                               json_body = Some (JObj [(''error'', JStr ''model unavailable'')])\<rparr>)
        \<lparr>query = ''A'', results = []\<rparr> =
      Inr \<lparr>query = [], results = [\<lparr>input = ''A'', output = JUndefined\<rparr>]\<rparr>"
  by (simp add: ok_def askLLM_def askLLM_settle_def response_json_def)

section \<open>The Home and Upload pages\<close>

text \<open>
  C8. A submit of the Home page, in login or in signup mode, and a submit of the Upload
  page with a file chosen: when the fetch resolves to a response with a success status, the
  page navigates to \<open>/dashboard\<close>; when the status is not a success, it shows an alert
  and does not navigate. A submit of the Upload page with no file chosen shows an alert and
  sends no request.
\<close>

theorem submit_navigates_on_success:
  "(fetch (if isSignup st then signup_call (form st) else login_call (form st)) = Resolved r \<longrightarrow>
      (if ok r then Push ''/dashboard'' \<in> set (fst (onSubmit fetch st))
       else list_ex is_Alert (fst (onSubmit fetch st)) \<and> \<not> list_ex is_Push (fst (onSubmit fetch st))))
   \<and> (fetch (upload_call fl) = Resolved r' \<longrightarrow>
      (if ok r' then Push ''/dashboard'' \<in> set (fst (submit fetch (Some fl)))
       else list_ex is_Alert (fst (submit fetch (Some fl)))
            \<and> \<not> list_ex is_Push (fst (submit fetch (Some fl)))))
   \<and> list_ex is_Alert (fst (submit fetch None))
   \<and> \<not> list_ex is_Fetched (fst (submit fetch None))
   \<and> \<not> list_ex is_Push (fst (submit fetch None))"
  by (simp add: onSubmit_def handleLogin_def handleSignup_def submit_def)

theorem submit_navigates_on_success_witness:
  "Push ''/dashboard'' \<in> set (fst (onSubmit (\<lambda>c. Resolved \<lparr>http_status = 200, json_body = Some (JObj [(''ok'', JBool True)])\<rparr>)
       \<lparr>isSignup = False,
        form = \<lparr>name = [], age = [], username = ''asha'', password = ''s3cret'', disease = [],
                email = [], phone = [], foodHabits = [], gender = []\<rparr>\<rparr>))
   \<and> Push ''/dashboard'' \<in> set (fst (submit (\<lambda>c. Resolved \<lparr>http_status = 200, json_body = Some (JObj [(''ok'', JBool True)])\<rparr>)
       (Some ''report.pdf'')))
   \<and> list_ex is_Alert (fst (onSubmit (\<lambda>c. Resolved \<lparr>http_status = 400, json_body = Some (JObj [(''ok'', JBool False)])\<rparr>)
       \<lparr>isSignup = True,
        form = \<lparr>name = ''Asha'', age = ''41'', username = ''asha'', password = [], disease = [],
                email = ''a@b.c'', phone = [], foodHabits = [], gender = ''Female''\<rparr>\<rparr>))
   \<and> \<not> list_ex is_Push (fst (onSubmit (\<lambda>c. Resolved \<lparr>http_status = 400, json_body = Some (JObj [(''ok'', JBool False)])\<rparr>)
       \<lparr>isSignup = True,
        form = \<lparr>name = ''Asha'', age = ''41'', username = ''asha'', password = [], disease = [],
                email = ''a@b.c'', phone = [], foodHabits = [], gender = ''Female''\<rparr>\<rparr>))
   \<and> list_ex is_Alert (fst (submit (\<lambda>c. Resolved \<lparr>http_status = 400, json_body = Some (JObj [(''ok'', JBool False)])\<rparr>)
       (Some ''report.pdf'')))
   \<and> \<not> list_ex is_Push (fst (submit (\<lambda>c. Resolved \<lparr>http_status = 400, json_body = Some (JObj [(''ok'', JBool False)])\<rparr>)
       (Some ''report.pdf'')))
   \<and> \<not> list_ex is_Fetched (fst (submit (\<lambda>c. Resolved \<lparr>http_status = 200, json_body = Some (JObj [(''ok'', JBool True)])\<rparr>)
       None))"
  using submit_navigates_on_success
    [where fetch = "\<lambda>c. Resolved \<lparr>http_status = 200, json_body = Some (JObj [(''ok'', JBool True)])\<rparr>"
       and st = "\<lparr>isSignup = False,
        form = \<lparr>name = [], age = [], username = ''asha'', password = ''s3cret'', disease = [],
                email = [], phone = [], foodHabits = [], gender = []\<rparr>\<rparr>"
       and r = "\<lparr>http_status = 200, json_body = Some (JObj [(''ok'', JBool True)])\<rparr>"
       and fl = "''report.pdf''"
       and r' = "\<lparr>http_status = 200, json_body = Some (JObj [(''ok'', JBool True)])\<rparr>"]
    submit_navigates_on_success
    [where fetch = "\<lambda>c. Resolved \<lparr>http_status = 400, json_body = Some (JObj [(''ok'', JBool False)])\<rparr>"
       and st = "\<lparr>isSignup = True,
        form = \<lparr>name = ''Asha'', age = ''41'', username = ''asha'', password = [], disease = [],
                email = ''a@b.c'', phone = [], foodHabits = [], gender = ''Female''\<rparr>\<rparr>"
       and r = "\<lparr>http_status = 400, json_body = Some (JObj [(''ok'', JBool False)])\<rparr>"
       and fl = "''report.pdf''"
       and r' = "\<lparr>http_status = 400, json_body = Some (JObj [(''ok'', JBool False)])\<rparr>"]
  by (simp add: ok_def)

end
